theory Spec2Isabelle
  imports Complex_Main "HOL-Library.Word"
begin

section \<open>Python values\<close>

text \<open>
  The exceptions the two modules can raise. \<open>Empty\<close> is \<open>queue.Empty\<close>, raised by
  \<open>Queue.get_nowait\<close>.
\<close>

datatype error =
    OverflowError | ValueError | TypeError | ZeroDivisionError | IndexError | KeyError
  | Empty | JSONDecodeError | UnicodeDecodeError

type_synonym byte = "8 word"

text \<open>
  A Python float: a finite value, an infinity or a NaN. The finite doubles are a subset
  of the reals; multiplying a double by \<open>32768 = 2 ^ 15\<close> only moves its exponent, so the
  product is exact unless it leaves the range of the format, where it becomes an infinity.
\<close>

datatype pyfloat = Finite real | Infinite | NaN

definition float_mul_32768 :: "pyfloat \<Rightarrow> pyfloat" where
  "float_mul_32768 v =
     (case v of
        Finite r \<Rightarrow> if 2 ^ 1024 \<le> \<bar>r * 32768\<bar> then Infinite else Finite (r * 32768)
      | Infinite \<Rightarrow> Infinite
      | NaN \<Rightarrow> NaN)"

text \<open>\<open>int(f)\<close> truncates towards zero; it raises on an infinity and on a NaN.\<close>

definition py_int :: "pyfloat \<Rightarrow> error + int" where
  "py_int v =
     (case v of
        Finite r \<Rightarrow> Inr (if 0 \<le> r then \<lfloor>r\<rfloor> else \<lceil>r\<rceil>)
      | Infinite \<Rightarrow> Inl OverflowError
      | NaN \<Rightarrow> Inl ValueError)"

text \<open>\<open>str(n)\<close> for an integer: its decimal digits, with a minus sign when negative.\<close>

definition digit_char :: "nat \<Rightarrow> char" where
  "digit_char d = ''0123456789'' ! d"

fun str_nat :: "nat \<Rightarrow> string" where
  "str_nat n = (if n < 10 then [digit_char n] else str_nat (n div 10) @ [digit_char (n mod 10)])"

declare str_nat.simps [simp del]

definition str_int :: "int \<Rightarrow> string" where
  "str_int i = (if i < 0 then CHR ''-'' # str_nat (nat (- i)) else str_nat (nat i))"

text \<open>
  \<open>val.to_bytes(n, 'big')\<close>: the unsigned big-endian encoding on \<open>n\<close> bytes; it raises
  OverflowError on a negative value and on a value that needs more than \<open>n\<close> bytes.
\<close>

fun be_bytes :: "nat \<Rightarrow> int \<Rightarrow> byte list" where
  "be_bytes 0 v = []"
| "be_bytes (Suc n) v = be_bytes n (v div 256) @ [word_of_int (v mod 256)]"

definition to_bytes :: "int \<Rightarrow> nat \<Rightarrow> error + byte list" where
  "to_bytes v n = (if v < 0 \<or> 256 ^ n \<le> v then Inl OverflowError else Inr (be_bytes n v))"

text \<open>What a read of the transport can return.\<close>

datatype pyval =
    PNone
  | PInt int
  | PIntList "int list"
  | PBytes "byte list"
  | PBytesList "byte list list"

section \<open>i2cio: the synthetic sample provider\<close>

text \<open>
  \<open>MockIoDataProvider\<close>: the cursor \<open>idx\<close>, the waveforms \<open>samples\<close> (a dict from the axis
  name to a list of floats) and, for the diagnostic that \<open>add_value\<close> prints, the lines
  written to standard output.
\<close>

record provider =
  idx :: nat
  samples :: "string \<rightharpoonup> pyfloat list"
  stdout :: "string list"

definition convert_value :: "pyfloat \<Rightarrow> error + int" where
  "convert_value val =
     (case py_int (float_mul_32768 val) of
        Inl e \<Rightarrow> Inl e
      | Inr i \<Rightarrow> Inr (if 0 \<le> i then i else 65536 + i))"

text \<open>
  \<open>add_value\<close> returns the extended byte array. \<open>self.samples[key]\<close> raises KeyError on a
  missing axis, \<open>self.idx % len(samples)\<close> raises ZeroDivisionError on an empty waveform,
  and what \<open>convert_value\<close> raises is outside the \<open>try\<close>.
\<close>

definition add_value :: "byte list \<Rightarrow> string \<Rightarrow> provider \<Rightarrow> (error + byte list) \<times> provider" where
  "add_value bytes key st =
     (case samples st key of
        None \<Rightarrow> (Inl KeyError, st)
      | Some wave \<Rightarrow>
          if length wave = 0 then (Inl ZeroDivisionError, st)
          else
            (case convert_value (wave ! (idx st mod length wave)) of
               Inl e \<Rightarrow> (Inl e, st)
             | Inr val \<Rightarrow>
                 (case to_bytes val 2 of
                    Inr b \<Rightarrow> (Inr (bytes @ b), st)
                  | Inl e \<Rightarrow>
                      (case to_bytes 0 2 of
                         Inr b \<Rightarrow>
                           (Inr (bytes @ b),
                            st\<lparr>stdout := stdout st @
                              [''Value too big - '' @ str_int val @ '' - replacing with 0'']\<rparr>)
                       | Inl e' \<Rightarrow> (Inl e', st)))))"

text \<open>
  The register addresses are constants of the module \<open>qvibe.mpu6050\<close>, which is not part of
  the sources at hand: they are a parameter. The source compares with \<open>is\<close>; the addresses
  are small integers, for which identity is equality.
\<close>

record mpu6050 =
  MPU6050_RA_INT_STATUS :: int
  MPU6050_RA_FIFO_COUNTH :: int
  MPU6050_RA_FIFO_R_W :: int

text \<open>The body of the \<open>for\<close> loop of \<open>provide\<close>, run \<open>n\<close> times.\<close>

fun fifo_loop :: "nat \<Rightarrow> byte list \<Rightarrow> provider \<Rightarrow> (error + byte list) \<times> provider" where
  "fifo_loop 0 bytes st = (Inr bytes, st)"
| "fifo_loop (Suc n) bytes st =
     (case add_value bytes ''x'' st of
        (Inl e, st1) \<Rightarrow> (Inl e, st1)
      | (Inr b1, st1) \<Rightarrow>
          (case add_value b1 ''y'' st1 of
             (Inl e, st2) \<Rightarrow> (Inl e, st2)
           | (Inr b2, st2) \<Rightarrow>
               (case add_value b2 ''z'' st2 of
                  (Inl e, st3) \<Rightarrow> (Inl e, st3)
                | (Inr b3, st3) \<Rightarrow> fifo_loop n b3 (st3\<lparr>idx := idx st3 + 1\<rparr>))))"

text \<open>
  \<open>provide(register, length=None)\<close>. In the FIFO branch \<open>None // 6\<close> raises TypeError,
  \<open>range(0, to_read)\<close> is empty for a negative \<open>to_read\<close>, and \<open>sleep\<close> raises ValueError on a
  negative duration; the time slept is not part of the state. In the last branch
  \<open>x.to_bytes(1, 'big')\<close> raises OverflowError from \<open>x = 256\<close> on.
\<close>

fun placeholder_bytes :: "nat list \<Rightarrow> error + byte list list" where
  "placeholder_bytes [] = Inr []"
| "placeholder_bytes (n # ns) =
     (case to_bytes (int n) 1 of
        Inl e \<Rightarrow> Inl e
      | Inr b \<Rightarrow> (case placeholder_bytes ns of Inl e \<Rightarrow> Inl e | Inr bs \<Rightarrow> Inr (b # bs)))"

definition provide :: "mpu6050 \<Rightarrow> int \<Rightarrow> int option \<Rightarrow> provider \<Rightarrow> (error + pyval) \<times> provider" where
  "provide regs register len st =
     (if register = MPU6050_RA_INT_STATUS regs then (Inr (PInt 1), st)
      else if register = MPU6050_RA_FIFO_COUNTH regs then (Inr (PIntList [0, 36]), st)
      else if register = MPU6050_RA_FIFO_R_W regs then
        (case len of
           None \<Rightarrow> (Inl TypeError, st)
         | Some l \<Rightarrow>
             (let to_read = l div 6 in
              case fifo_loop (nat to_read) [] st of
                (Inl e, st') \<Rightarrow> (Inl e, st')
              | (Inr bytes, st') \<Rightarrow>
                  if to_read < 0 then (Inl ValueError, st') else (Inr (PBytes bytes), st')))
      else
        (case len of
           None \<Rightarrow> (Inr (PInt 0), st)
         | Some l \<Rightarrow>
             (case placeholder_bytes [0 ..< nat l] of
                Inl e \<Rightarrow> (Inl e, st)
              | Inr bs \<Rightarrow> (Inr (PBytesList bs), st))))"

section \<open>i2cio: the recording transport\<close>

text \<open>
  \<open>mockIO\<close>: the log of writes, the optional data provider (a callable, here a function on
  the provider's own state \<open>'s\<close>) and the queue of values to read.
\<close>

record 's mockIO =
  values_written :: "(int \<times> int \<times> int) list"
  data_provider :: "(int \<Rightarrow> int option \<Rightarrow> 's \<Rightarrow> (error + pyval) \<times> 's) option"
  provider_state :: 's
  vals_to_read :: "pyval list"

definition write_value :: "'s mockIO \<Rightarrow> int \<Rightarrow> int \<Rightarrow> int \<Rightarrow> 's mockIO" where
  "write_value io i2c_address register val =
     io\<lparr>values_written := values_written io @ [(i2c_address, register, val)]\<rparr>"

definition get_nowait :: "'s mockIO \<Rightarrow> (error + pyval) \<times> 's mockIO" where
  "get_nowait io =
     (case vals_to_read io of
        [] \<Rightarrow> (Inl Empty, io)
      | v # vs \<Rightarrow> (Inr v, io\<lparr>vals_to_read := vs\<rparr>))"

definition read_block :: "'s mockIO \<Rightarrow> int \<Rightarrow> int \<Rightarrow> int \<Rightarrow> (error + pyval) \<times> 's mockIO" where
  "read_block io i2c_address register len =
     (case data_provider io of
        None \<Rightarrow> get_nowait io
      | Some p \<Rightarrow>
          (case p register (Some len) (provider_state io) of
             (Inl e, s') \<Rightarrow> (Inl e, io\<lparr>provider_state := s'\<rparr>)
           | (Inr PNone, s') \<Rightarrow> get_nowait (io\<lparr>provider_state := s'\<rparr>)
           | (Inr ret, s') \<Rightarrow> (Inr ret, io\<lparr>provider_state := s'\<rparr>)))"

definition read :: "'s mockIO \<Rightarrow> int \<Rightarrow> int \<Rightarrow> (error + pyval) \<times> 's mockIO" where
  "read io i2c_address register =
     (case data_provider io of
        None \<Rightarrow> get_nowait io
      | Some p \<Rightarrow>
          (case p register None (provider_state io) of
             (Inl e, s') \<Rightarrow> (Inl e, io\<lparr>provider_state := s'\<rparr>)
           | (Inr PNone, s') \<Rightarrow> get_nowait (io\<lparr>provider_state := s'\<rparr>)
           | (Inr ret, s') \<Rightarrow> (Inr ret, io\<lparr>provider_state := s'\<rparr>)))"

section \<open>interface: JSON values and devices\<close>

text \<open>
  What \<open>json.loads\<close> returns: \<open>None\<close>, a bool, an int, a float, a str, a list or a dict
  (an association list, in the order of the keys). Text is represented by its UTF-8
  bytes: \<open>encode()\<close> is then the identity and \<open>decode()\<close> is partial.
\<close>

datatype json =
    JNull
  | JBool bool
  | JInt int
  | JFloat real
  | JString string
  | JArray "json list"
  | JObject "(string \<times> json) list"

text \<open>
  Modelled from the spec: the Device class is not among the sources at hand. A device
  has a mutable \<open>state\<close>, a JSON-serializable mapping, and \<open>self_test_results\<close>, opaque to
  the protocol; assigning to \<open>state\<close> replaces it.
\<close>

record device =
  state :: json
  self_test_results :: json

text \<open>
  The protocol instance: the registry \<open>devices\<close> (a dict, in insertion order), the
  handlers obtained from the devices at construction, and what the instance has done so
  far: the lines handed to \<open>sendLine\<close> and the calls of \<open>accept\<close> on a handler (with
  \<open>True\<close> for a \<open>SocketHandler\<close> of this connection, \<open>False\<close> for \<open>None\<close>), in order, and
  the records written to the logger.
\<close>

datatype event = SendLine string | Accept nat bool

datatype log_entry = UnknownCommand string | FailedToHandle string error

record protocol =
  devices :: "(string \<times> device) list"
  handlers :: "nat list"
  events :: "event list"
  logged :: "log_entry list"

datatype Command = Command_GET | Command_SET | Command_STR

text \<open>
  \<open>Command[name]\<close>: the member of that name (\<open>Command.GET\<close>, \<open>Command.SET\<close>, \<open>Command.STR\<close>),
  KeyError otherwise.
\<close>

definition Command_getitem :: "string \<Rightarrow> error + Command" where
  "Command_getitem name =
     (if name = ''GET'' then Inr Command_GET
      else if name = ''SET'' then Inr Command_SET
      else if name = ''STR'' then Inr Command_STR
      else Inl KeyError)"

text \<open>\<open>s.split(sep)\<close> for a separator of one character: always at least one token.\<close>

fun split_on :: "char \<Rightarrow> string \<Rightarrow> string list" where
  "split_on sep [] = [[]]"
| "split_on sep (c # cs) =
     (if c = sep then [] # split_on sep cs
      else (case split_on sep cs of [] \<Rightarrow> [[c]] | t # ts \<Rightarrow> (c # t) # ts))"

text \<open>\<open>xs[i]\<close> for an index that is not negative.\<close>

definition getitem :: "'a list \<Rightarrow> nat \<Rightarrow> error + 'a" where
  "getitem xs i = (if i < length xs then Inr (xs ! i) else Inl IndexError)"

text \<open>
  \<open>key in v\<close> for a string \<open>key\<close>: a key of a dict, an element of a list, a substring of a
  str; the other JSON values are not iterable.
\<close>

fun str_contains :: "string \<Rightarrow> string \<Rightarrow> bool" where
  "str_contains p [] = (p = [])"
| "str_contains p (c # cs) = (take (length p) (c # cs) = p \<or> str_contains p cs)"

definition py_in :: "string \<Rightarrow> json \<Rightarrow> error + bool" where
  "py_in key v =
     (case v of
        JObject kvs \<Rightarrow> Inr (key \<in> set (map fst kvs))
      | JArray xs \<Rightarrow> Inr (JString key \<in> set xs)
      | JString s \<Rightarrow> Inr (str_contains key s)
      | _ \<Rightarrow> Inl TypeError)"

text \<open>\<open>v[key]\<close> for a string \<open>key\<close>: only a dict can be indexed by a string.\<close>

definition py_getitem :: "json \<Rightarrow> string \<Rightarrow> error + json" where
  "py_getitem v key =
     (case v of
        JObject kvs \<Rightarrow> (case map_of kvs key of None \<Rightarrow> Inl KeyError | Some w \<Rightarrow> Inr w)
      | _ \<Rightarrow> Inl TypeError)"

text \<open>
  \<open>v in self.devices\<close>: the keys of the registry are strings; a list and a dict are
  unhashable, and no other value equals a string.
\<close>

definition in_devices :: "json \<Rightarrow> (string \<times> device) list \<Rightarrow> error + bool" where
  "in_devices v devs =
     (case v of
        JString name \<Rightarrow> Inr (name \<in> set (map fst devs))
      | JArray xs \<Rightarrow> Inl TypeError
      | JObject kvs \<Rightarrow> Inl TypeError
      | _ \<Rightarrow> Inr False)"

text \<open>\<open>self.devices[name].state = s\<close>: the device keeps its place in the registry.\<close>

definition set_state :: "string \<Rightarrow> json \<Rightarrow> (string \<times> device) list \<Rightarrow> (string \<times> device) list" where
  "set_state name s devs = map (\<lambda>(k, d). if k = name then (k, d\<lparr>state := s\<rparr>) else (k, d)) devs"

section \<open>interface: the command protocol\<close>

text \<open>
  \<open>json.dumps\<close> and \<open>json.loads\<close> belong to the standard library and are parameters
  (\<open>dumps\<close>, \<open>loads\<close>), as is the decoding of a received line (\<open>decode\<close>, \<open>None\<close> when the
  line is not valid UTF-8).
\<close>

text \<open>
  \<open>sendLine\<close> hands a line to the transport of the connection. In \<open>send_device_state\<close>,
  \<open>len(y)\<close> counts the characters of the text \<open>y\<close>; \<open>json.dumps\<close> escapes every character
  beyond ASCII, so that this is the number of its bytes.
\<close>

definition sendLine :: "string \<Rightarrow> protocol \<Rightarrow> protocol" where
  "sendLine line st = st\<lparr>events := events st @ [SendLine line]\<rparr>"

definition send_device_state :: "(json \<Rightarrow> string) \<Rightarrow> json \<Rightarrow> protocol \<Rightarrow> protocol" where
  "send_device_state dumps device_state st =
     (let y = dumps device_state in sendLine (str_nat (length y) @ ''|'' @ y) st)"

definition send_all_device_states :: "(json \<Rightarrow> string) \<Rightarrow> protocol \<Rightarrow> protocol" where
  "send_all_device_states dumps st =
     send_device_state dumps (JArray (map (\<lambda>(k, d). state d) (devices st))) st"

text \<open>
  Modelled from the spec: the handler chain (module \<open>qvibe.handler\<close>) is not among the
  sources at hand. It is an opaque consumer: \<open>h.accept(x)\<close> registers \<open>x\<close> with the handler
  \<open>h\<close> (or deregisters, for \<open>None\<close>), which the model records as an event.
\<close>

definition accept :: "nat \<Rightarrow> bool \<Rightarrow> protocol \<Rightarrow> protocol" where
  "accept h socket st = st\<lparr>events := events st @ [Accept h socket]\<rparr>"

definition connectionMade :: "(json \<Rightarrow> string) \<Rightarrow> protocol \<Rightarrow> protocol" where
  "connectionMade dumps st =
     foldl (\<lambda>s h. accept h True s) (send_all_device_states dumps st) (handlers st)"

definition connectionLost :: "protocol \<Rightarrow> protocol" where
  "connectionLost st = foldl (\<lambda>s h. accept h False s) st (handlers st)"

definition handle_str :: "(json \<Rightarrow> string) \<Rightarrow> string list \<Rightarrow> protocol \<Rightarrow> (error + unit) \<times> protocol" where
  "handle_str dumps tokens st =
     (if length tokens = 2 then
        (case getitem tokens 1 of
           Inl e \<Rightarrow> (Inl e, st)
         | Inr device_name \<Rightarrow>
             (case map_of (devices st) device_name of
                None \<Rightarrow> (Inr (), st)
              | Some d \<Rightarrow> (Inr (), sendLine (dumps (self_test_results d)) st)))
      else (Inr (), st))"

definition handle_set ::
  "(string \<Rightarrow> error + json) \<Rightarrow> (json \<Rightarrow> string) \<Rightarrow> string list \<Rightarrow> protocol \<Rightarrow> (error + unit) \<times> protocol" where
  "handle_set loads dumps tokens st =
     (case getitem tokens 1 of
        Inl e \<Rightarrow> (Inl e, st)
      | Inr arg \<Rightarrow>
          (case loads arg of
             Inl e \<Rightarrow> (Inl e, st)
           | Inr target_state \<Rightarrow>
               (case py_in ''name'' target_state of
                  Inl e \<Rightarrow> (Inl e, st)
                | Inr False \<Rightarrow> (Inr (), st)
                | Inr True \<Rightarrow>
                    (case py_getitem target_state ''name'' of
                       Inl e \<Rightarrow> (Inl e, st)
                     | Inr name \<Rightarrow>
                         (case in_devices name (devices st) of
                            Inl e \<Rightarrow> (Inl e, st)
                          | Inr False \<Rightarrow> (Inr (), st)
                          | Inr True \<Rightarrow>
                              (case name of
                                 JString n \<Rightarrow>
                                   (Inr (),
                                    send_device_state dumps target_state
                                      (st\<lparr>devices := set_state n target_state (devices st)\<rparr>))
                               | _ \<Rightarrow> (Inl KeyError, st)))))))"

definition handle_get :: "(json \<Rightarrow> string) \<Rightarrow> string list \<Rightarrow> protocol \<Rightarrow> (error + unit) \<times> protocol" where
  "handle_get dumps tokens st =
     (if length tokens = 1 then (Inr (), send_all_device_states dumps st)
      else
        (case getitem tokens 1 of
           Inl e \<Rightarrow> (Inl e, st)
         | Inr device_name \<Rightarrow>
             (case map_of (devices st) device_name of
                None \<Rightarrow> (Inr (), st)
              | Some d \<Rightarrow> (Inr (), send_device_state dumps (state d) st))))"

text \<open>The body of the \<open>try\<close> of \<open>lineReceived\<close>.\<close>

definition dispatch ::
  "(string \<Rightarrow> error + json) \<Rightarrow> (json \<Rightarrow> string) \<Rightarrow> string list \<Rightarrow> protocol \<Rightarrow> (error + unit) \<times> protocol" where
  "dispatch loads dumps tokens st =
     (case getitem tokens 0 of
        Inl e \<Rightarrow> (Inl e, st)
      | Inr t0 \<Rightarrow>
          (case Command_getitem t0 of
             Inl e \<Rightarrow> (Inl e, st)
           | Inr Command_GET \<Rightarrow> handle_get dumps tokens st
           | Inr Command_SET \<Rightarrow> handle_set loads dumps tokens st
           | Inr Command_STR \<Rightarrow> handle_str dumps tokens st))"

text \<open>
  \<open>lineReceived\<close>: the decoding of the line is outside the \<open>try\<close>; a KeyError is logged as
  an unknown command, every other exception as a failure, and neither leaves the method.
\<close>

definition lineReceived ::
  "(string \<Rightarrow> string option) \<Rightarrow> (string \<Rightarrow> error + json) \<Rightarrow> (json \<Rightarrow> string) \<Rightarrow>
   string \<Rightarrow> protocol \<Rightarrow> (error + unit) \<times> protocol" where
  "lineReceived decode loads dumps line st =
     (case decode line of
        None \<Rightarrow> (Inl UnicodeDecodeError, st)
      | Some text \<Rightarrow>
          (let tokens = split_on CHR ''|'' text in
           case dispatch loads dumps tokens st of
             (Inr u, st') \<Rightarrow> (Inr (), st')
           | (Inl e, st') \<Rightarrow>
               if e = KeyError then (Inr (), st'\<lparr>logged := logged st' @ [UnknownCommand line]\<rparr>)
               else (Inr (), st'\<lparr>logged := logged st' @ [FailedToHandle line e]\<rparr>)))"

text \<open>
  A connection as the framework drives it: \<open>connectionMade\<close> once, then \<open>lineReceived\<close>
  for each line in turn, until one raises.
\<close>

fun run_lines ::
  "(string \<Rightarrow> string option) \<Rightarrow> (string \<Rightarrow> error + json) \<Rightarrow> (json \<Rightarrow> string) \<Rightarrow>
   string list \<Rightarrow> protocol \<Rightarrow> (error + unit) \<times> protocol" where
  "run_lines decode loads dumps [] st = (Inr (), st)"
| "run_lines decode loads dumps (line # lines) st =
     (case lineReceived decode loads dumps line st of
        (Inl e, st') \<Rightarrow> (Inl e, st')
      | (Inr u, st') \<Rightarrow> run_lines decode loads dumps lines st')"

definition connection ::
  "(string \<Rightarrow> string option) \<Rightarrow> (string \<Rightarrow> error + json) \<Rightarrow> (json \<Rightarrow> string) \<Rightarrow>
   string list \<Rightarrow> protocol \<Rightarrow> (error + unit) \<times> protocol" where
  "connection decode loads dumps lines st = run_lines decode loads dumps lines (connectionMade dumps st)"

section \<open>Notions of the specification\<close>

text \<open>Truncation towards zero, said without reference to \<open>py_int\<close>.\<close>

definition trunc_toward_zero :: "real \<Rightarrow> int" where
  "trunc_toward_zero r = (if r < 0 then - \<lfloor>- r\<rfloor> else \<lfloor>r\<rfloor>)"

text \<open>
  The conversion rule in the specification's words: \<open>encoded = round(value * 32768)\<close>; if
  \<open>encoded < 0\<close>, wrap as \<open>65536 + encoded\<close>.
\<close>

definition spec_encode :: "real \<Rightarrow> int" where
  "spec_encode v = (let encoded = round (v * 32768) in if encoded < 0 then 65536 + encoded else encoded)"

text \<open>
  Modelled from the spec: the decoding of an encoded sample belongs to the sensor module,
  which is not among the sources at hand. The 16 bits are read as a two's-complement
  value, divided by 32768.
\<close>

definition decode16 :: "int \<Rightarrow> real" where
  "decode16 e = real_of_int (sint (word_of_int e :: 16 word)) / 32768"

text \<open>
  The overflow policy in the specification's words: the sample is clamped to 0, that is
  the block gains the two bytes of 0, and one diagnostic is recorded, without an exception.
\<close>

definition clamped_with_diagnostic :: "byte list \<Rightarrow> string \<Rightarrow> provider \<Rightarrow> bool" where
  "clamped_with_diagnostic bytes key st =
     (case add_value bytes key st of
        (Inr b, st') \<Rightarrow> b = bytes @ [0, 0] \<and> length (stdout st') = Suc (length (stdout st))
      | (Inl e, st') \<Rightarrow> False)"

text \<open>
  A waveform value on which \<open>convert_value\<close> raises nothing: a finite float whose product by
  32768 is finite. A provider is playable when its three waveforms exist, are not empty
  and hold such values only.
\<close>

definition raises_nothing :: "pyfloat \<Rightarrow> bool" where
  "raises_nothing v = (case v of Finite r \<Rightarrow> \<bar>r * 32768\<bar> < 2 ^ 1024 | _ \<Rightarrow> False)"

definition playable :: "provider \<Rightarrow> bool" where
  "playable st = (\<forall>key \<in> {''x'', ''y'', ''z''}.
     case samples st key of None \<Rightarrow> False | Some wave \<Rightarrow> wave \<noteq> [] \<and> list_all raises_nothing wave)"

text \<open>
  A waveform value in the encodable range, one whose converted value fits 16 bits, and the
  two bytes of that value, high byte first.
\<close>

definition encodable :: "pyfloat \<Rightarrow> bool" where
  "encodable v = (case convert_value v of Inr e \<Rightarrow> 0 \<le> e \<and> e < 65536 | Inl err \<Rightarrow> False)"

definition big_endian_16 :: "pyfloat \<Rightarrow> byte list" where
  "big_endian_16 v =
     (case convert_value v of
        Inr e \<Rightarrow> [word_of_int (e div 256), word_of_int (e mod 256)]
      | Inl err \<Rightarrow> [])"

text \<open>
  The \<open>k\<close>-th sample set after the cursor: the encodings of \<open>x\<close>, \<open>y\<close>, \<open>z\<close> in that order,
  each drawn from its waveform at position \<open>idx + k\<close> modulo the length of that waveform.
\<close>

definition sample_set :: "provider \<Rightarrow> nat \<Rightarrow> byte list" where
  "sample_set st k =
     concat (map (\<lambda>key. case samples st key of
                          None \<Rightarrow> []
                        | Some wave \<Rightarrow> big_endian_16 (wave ! ((idx st + k) mod length wave)))
                 [''x'', ''y'', ''z''])"

definition drawn_encodable :: "provider \<Rightarrow> nat \<Rightarrow> bool" where
  "drawn_encodable st k =
     list_all (\<lambda>key. case samples st key of
                        None \<Rightarrow> False
                      | Some wave \<Rightarrow> wave \<noteq> [] \<and> encodable (wave ! ((idx st + k) mod length wave)))
              [''x'', ''y'', ''z'']"

text \<open>
  What the data provider of a transport answers: \<open>PNone\<close>, nothing, when there is no
  provider.
\<close>

definition consult :: "'s mockIO \<Rightarrow> int \<Rightarrow> int option \<Rightarrow> (error + pyval) \<times> 's mockIO" where
  "consult io register len =
     (case data_provider io of
        None \<Rightarrow> (Inr PNone, io)
      | Some p \<Rightarrow> (case p register len (provider_state io) of (r, s') \<Rightarrow> (r, io\<lparr>provider_state := s'\<rparr>)))"

text \<open>
  An instance for the examples: the register addresses of the sensor's data sheet, and a
  provider over three short waveforms of different lengths.
\<close>

definition datasheet :: mpu6050 where
  "datasheet = \<lparr>MPU6050_RA_INT_STATUS = 58, MPU6050_RA_FIFO_COUNTH = 114, MPU6050_RA_FIFO_R_W = 116\<rparr>"

definition short_waves :: provider where
  "short_waves = \<lparr>idx = 1,
     samples = [''x'' \<mapsto> [Finite (1 / 2), Finite (- 1 / 2)],
                ''y'' \<mapsto> [Finite (1 / 4)],
                ''z'' \<mapsto> [Finite 0, Finite (1 / 8), Finite (- 1)]],
     stdout = []\<rparr>"

text \<open>
  A state push in the specification's words: the length of the JSON text, a bar, the text.
  The array pushed on connect holds the state of every device, in the order of the
  registry.
\<close>

definition length_prefixed :: "string \<Rightarrow> string" where
  "length_prefixed y = str_nat (length y) @ ''|'' @ y"

definition all_states :: "protocol \<Rightarrow> json" where
  "all_states st = JArray (map (\<lambda>(k, d). state d) (devices st))"

text \<open>
  The first bar-delimited token of a received line, when the line decodes.
\<close>

definition first_token :: "(string \<Rightarrow> string option) \<Rightarrow> string \<Rightarrow> string option" where
  "first_token decode line = map_option (takeWhile (\<lambda>c. c \<noteq> CHR ''|'')) (decode line)"

text \<open>
  \<open>bytes.decode()\<close> with its default codec, strict UTF-8, on the representation of a text
  by its bytes: the line itself when it is well-formed UTF-8 (no overlong form, no
  surrogate, nothing beyond U+10FFFF), \<open>None\<close> for UnicodeDecodeError. \<open>utf8_scan\<close> reads
  the bytes in turn, with the number of continuation bytes still due and the range allowed
  for the next one.
\<close>

fun utf8_scan :: "nat \<Rightarrow> nat \<Rightarrow> nat \<Rightarrow> nat list \<Rightarrow> bool" where
  "utf8_scan need lo hi [] = (need = 0)"
| "utf8_scan need lo hi (b # bs) =
     (if need = 0 then
        (if b < 0x80 then utf8_scan 0 0x80 0xBF bs
         else if 0xC2 \<le> b \<and> b \<le> 0xDF then utf8_scan 1 0x80 0xBF bs
         else if b = 0xE0 then utf8_scan 2 0xA0 0xBF bs
         else if b = 0xED then utf8_scan 2 0x80 0x9F bs
         else if 0xE1 \<le> b \<and> b \<le> 0xEF then utf8_scan 2 0x80 0xBF bs
         else if b = 0xF0 then utf8_scan 3 0x90 0xBF bs
         else if 0xF1 \<le> b \<and> b \<le> 0xF3 then utf8_scan 3 0x80 0xBF bs
         else if b = 0xF4 then utf8_scan 3 0x80 0x8F bs
         else False)
      else if lo \<le> b \<and> b \<le> hi then utf8_scan (need - 1) 0x80 0xBF bs
      else False)"

definition utf8_decode :: "string \<Rightarrow> string option" where
  "utf8_decode line = (if utf8_scan 0 0x80 0xBF (map of_char line) then Some line else None)"

text \<open>
  An instance for the examples, after the scenario of the specification: a registry with
  the one device \<open>imu0\<close>, and \<open>json.loads\<close> and \<open>json.dumps\<close> on the texts that occur there.
\<close>

definition scenario_loads :: "string \<Rightarrow> error + json" where
  \<open>scenario_loads s =
     (if s = ''{"name": "imu0", "rate": 200}''
        then Inr (JObject [(''name'', JString ''imu0''), (''rate'', JInt 200)])
      else if s = ''{"name": "unknown"}'' then Inr (JObject [(''name'', JString ''unknown'')])
      else if s = ''{"name": "imu0", "axes": "x''
        then Inl JSONDecodeError
      else Inl JSONDecodeError)\<close>

definition scenario_dumps :: "json \<Rightarrow> string" where
  \<open>scenario_dumps j =
     (if j = JObject [(''name'', JString ''imu0''), (''rate'', JInt 200)]
        then ''{"name": "imu0", "rate": 200}''
      else if j = JObject [(''name'', JString ''imu0''), (''rate'', JInt 100)]
        then ''{"name": "imu0", "rate": 100}''
      else if j = JArray [JObject [(''name'', JString ''imu0''), (''rate'', JInt 100)]]
        then ''[{"name": "imu0", "rate": 100}]''
      else ''null'')\<close>

definition scenario :: protocol where
  "scenario = \<lparr>devices = [(''imu0'', \<lparr>state = JObject [(''name'', JString ''imu0''), (''rate'', JInt 100)],
                                     self_test_results = JNull\<rparr>)],
               handlers = [0], events = [], logged = []\<rparr>"

section \<open>The encoding of a sample\<close>

lemma py_int_trunc: "py_int (Finite r) = Inr (trunc_toward_zero r)"
  by (simp add: py_int_def trunc_toward_zero_def ceiling_def)

lemma float_mul_in_range: "\<bar>r * 32768\<bar> < 2 ^ 1024 \<Longrightarrow> float_mul_32768 (Finite r) = Finite (r * 32768)"
  by (simp add: float_mul_32768_def)

lemma convert_value_Finite:
  "\<bar>r * 32768\<bar> < 2 ^ 1024 \<Longrightarrow>
   convert_value (Finite r) =
     Inr (if 0 \<le> trunc_toward_zero (r * 32768) then trunc_toward_zero (r * 32768)
          else 65536 + trunc_toward_zero (r * 32768))"
  by (simp only: convert_value_def float_mul_in_range py_int_trunc sum.case)

lemma small_in_range: "\<bar>r\<bar> \<le> 2 ^ 16 \<Longrightarrow> \<bar>r * 32768\<bar> < (2::real) ^ 1024"
proof -
  assume a: "\<bar>r\<bar> \<le> 2 ^ 16"
  have "\<bar>r * 32768\<bar> = \<bar>r\<bar> * 2 ^ 15" by (simp add: abs_mult)
  also have "\<dots> \<le> 2 ^ 16 * 2 ^ 15" using a by (intro mult_right_mono) simp_all
  also have "\<dots> = (2::real) ^ 31" by (simp only: power_add [symmetric]) simp
  also have "\<dots> < 2 ^ 1024" by (rule power_strict_increasing) simp_all
  finally show ?thesis .
qed

lemma trunc_bounds:
  "\<bar>real_of_int (trunc_toward_zero x) - x\<bar> < 1"
  unfolding trunc_toward_zero_def by (auto; linarith)

lemma to_bytes_2_overflow: "v < 0 \<or> 65536 \<le> v \<Longrightarrow> to_bytes v 2 = Inl OverflowError"
  by (auto simp add: to_bytes_def)

lemma to_bytes_2_ok: "0 \<le> v \<Longrightarrow> v < 65536 \<Longrightarrow> to_bytes v 2 = Inr [word_of_int (v div 256), word_of_int (v mod 256)]"
  by (simp add: to_bytes_def numeral_2_eq_2)

lemma to_bytes_0_2: "to_bytes 0 2 = Inr [0, 0]"
  by (simp add: to_bytes_def numeral_2_eq_2)

lemma trunc_big: "2 \<le> v \<Longrightarrow> 65536 \<le> trunc_toward_zero (v * 32768)"
  unfolding trunc_toward_zero_def by (auto simp: le_floor_iff)

lemma trunc_neg_big: "v \<le> - 2 - 1 / 32768 \<Longrightarrow> trunc_toward_zero (v * 32768) \<le> - 65537"
  unfolding trunc_toward_zero_def by (auto simp: le_floor_iff)

lemma wrap16: "(word_of_int (65536 + i) :: 16 word) = word_of_int i"
  by simp

lemma uint16_nonneg: "0 \<le> i \<Longrightarrow> i < 65536 \<Longrightarrow> uint (word_of_int i :: 16 word) = i"
  by (simp add: unsigned_of_int take_bit_int_eq_self)

lemma sint16: "- 32768 \<le> i \<Longrightarrow> i < 32768 \<Longrightarrow> sint (word_of_int i :: 16 word) = i"
  by (simp add: signed_of_int signed_take_bit_int_eq_self)

lemma trunc_ge: "- 1 \<le> v \<Longrightarrow> - 32768 \<le> trunc_toward_zero (v * 32768)"
  unfolding trunc_toward_zero_def by (auto simp: le_floor_iff floor_le_iff; linarith)

lemma trunc_lt: "v < 1 \<Longrightarrow> trunc_toward_zero (v * 32768) < 32768"
  unfolding trunc_toward_zero_def by (auto simp: floor_less_iff; linarith)

text \<open>
  C1, as amended. When the waveform value drawn for an axis is a finite \<open>v\<close> with \<open>2 \<le> v\<close> or
  \<open>v \<le> - 2 - 1 / 32768\<close> (and \<open>v * 32768\<close> stays a finite float), the converted value does not
  fit the unsigned 2-byte encoding: \<open>add_value\<close> raises nothing, appends the two bytes of 0
  to the block and prints one diagnostic line that quotes the converted value.
\<close>

theorem add_value_clamps:
  assumes "samples st key = Some wave" and "wave \<noteq> []"
    and "wave ! (idx st mod length wave) = Finite v"
    and "\<bar>v * 32768\<bar> < 2 ^ 1024"
    and "2 \<le> v \<or> v \<le> - 2 - 1 / 32768"
  shows "add_value bytes key st =
           (Inr (bytes @ [0, 0]),
            st\<lparr>stdout := stdout st @
              [''Value too big - '' @
               str_int (if 2 \<le> v then trunc_toward_zero (v * 32768)
                        else 65536 + trunc_toward_zero (v * 32768)) @
               '' - replacing with 0'']\<rparr>)
         \<and> clamped_with_diagnostic bytes key st"
proof -
  let ?i = "trunc_toward_zero (v * 32768)"
  let ?val = "if 2 \<le> v then ?i else 65536 + ?i"
  have cv: "convert_value (Finite v) = Inr ?val"
    using assms(5) trunc_big [of v] trunc_neg_big [of v]
    by (auto simp add: convert_value_Finite [OF assms(4)])
  have ov: "to_bytes ?val 2 = Inl OverflowError"
    using assms(5) trunc_big [of v] trunc_neg_big [of v]
    by (intro to_bytes_2_overflow) auto
  have av: "add_value bytes key st =
           (Inr (bytes @ [0, 0]),
            st\<lparr>stdout := stdout st @
              [''Value too big - '' @ str_int ?val @ '' - replacing with 0'']\<rparr>)"
    unfolding add_value_def using assms(1-3) by (simp add: cv ov to_bytes_0_2)
  show ?thesis
    unfolding clamped_with_diagnostic_def av by (simp add: av)
qed

theorem add_value_clamps_witness:
  "add_value [7] ''y'' \<lparr>idx = 5, samples = [''y'' \<mapsto> [Finite 0, Finite (-5/2)]], stdout = []\<rparr>
     = (Inr [7, 0, 0],
        \<lparr>idx = 5, samples = [''y'' \<mapsto> [Finite 0, Finite (-5/2)]],
         stdout = [''Value too big - -16384 - replacing with 0'']\<rparr>)"
proof -
  let ?st = "\<lparr>idx = 5, samples = [''y'' \<mapsto> [Finite 0, Finite (-5/2)]], stdout = []\<rparr>"
  have h1: "samples ?st ''y'' = Some [Finite 0, Finite (-5/2)]" by simp
  have h2: "[Finite 0, Finite (-5/2)] \<noteq> []" by simp
  have h3: "[Finite 0, Finite (-5/2)] ! (idx ?st mod length [Finite 0, Finite (-5/2)]) = Finite (-5/2)"
    by (simp add: numeral_2_eq_2 [symmetric])
  have h4: "\<bar>(-5/2) * 32768 :: real\<bar> < 2 ^ 1024" by (rule small_in_range) simp
  have h5: "2 \<le> (-5/2 :: real) \<or> (-5/2 :: real) \<le> - 2 - 1 / 32768" by simp
  show ?thesis
    using add_value_clamps [OF h1 h2 h3 h4 h5, of "[7]"]
    by (simp add: trunc_toward_zero_def str_int_def str_nat.simps digit_char_def)
qed

text \<open>
  C1 as stated fails at \<open>v = - 1\<close>, where \<open>1 \<le> \<bar>v\<bar>\<close>: the converted value is 32768, which
  fits, so the block gains the bytes 128, 0 and nothing is printed.
\<close>

theorem add_value_clamp_counterexample:
  "1 \<le> \<bar>- 1 :: real\<bar> \<and>
   add_value [] ''x'' \<lparr>idx = 0, samples = [''x'' \<mapsto> [Finite (- 1)]], stdout = []\<rparr>
     = (Inr [128, 0], \<lparr>idx = 0, samples = [''x'' \<mapsto> [Finite (- 1)]], stdout = []\<rparr>) \<and>
   \<not> clamped_with_diagnostic [] ''x'' \<lparr>idx = 0, samples = [''x'' \<mapsto> [Finite (- 1)]], stdout = []\<rparr>"
  by (simp add: clamped_with_diagnostic_def add_value_def convert_value_Finite small_in_range
      trunc_toward_zero_def to_bytes_def numeral_2_eq_2)



text \<open>
  C2, as amended. For a finite \<open>v\<close> (with \<open>v * 32768\<close> a finite float) \<open>convert_value\<close>
  computes \<open>encoded\<close> as \<open>v * 32768\<close> truncated towards zero, not rounded, and returns
  \<open>65536 + encoded\<close> when \<open>encoded < 0\<close>; for \<open>- 1 \<le> v < 1\<close> this is the 16-bit two's-complement
  representation of \<open>encoded\<close>.
\<close>

theorem convert_value_truncates:
  assumes "\<bar>v * 32768\<bar> < 2 ^ 1024"
  shows "convert_value (Finite v) =
           Inr (let encoded = trunc_toward_zero (v * 32768)
                in if encoded < 0 then 65536 + encoded else encoded)
         \<and> (- 1 \<le> v \<and> v < 1 \<longrightarrow>
              convert_value (Finite v) =
                Inr (uint (word_of_int (trunc_toward_zero (v * 32768)) :: 16 word)))"
proof (intro conjI impI)
  let ?e = "trunc_toward_zero (v * 32768)"
  show eq: "convert_value (Finite v) = Inr (let encoded = ?e in if encoded < 0 then 65536 + encoded else encoded)"
    by (simp add: convert_value_Finite [OF assms] Let_def not_less)
  assume r: "- 1 \<le> v \<and> v < 1"
  then have lo: "- 32768 \<le> ?e" and hi: "?e < 32768"
    by (simp_all add: trunc_ge trunc_lt)
  show "convert_value (Finite v) = Inr (uint (word_of_int ?e :: 16 word))"
  proof (cases "?e < 0")
    case True
    have "uint (word_of_int ?e :: 16 word) = uint (word_of_int (65536 + ?e) :: 16 word)"
      by (simp only: wrap16)
    also have "\<dots> = 65536 + ?e"
      using lo True by (intro uint16_nonneg) simp_all
    finally show ?thesis using True by (simp add: eq)
  next
    case False
    then have "uint (word_of_int ?e :: 16 word) = ?e"
      using hi by (intro uint16_nonneg) simp_all
    then show ?thesis using False by (simp add: eq)
  qed
qed

theorem convert_value_truncates_witness:
  "convert_value (Finite (- 1 / 2)) = Inr 49152 \<and> convert_value (Finite (- 1 / 2)) = Inr (uint (49152 :: 16 word))"
proof -
  have h: "\<bar>(- 1 / 2) * 32768 :: real\<bar> < 2 ^ 1024" by (rule small_in_range) simp
  show ?thesis
    using convert_value_truncates [OF h] by (simp add: trunc_toward_zero_def)
qed

text \<open>
  C2 as stated fails at \<open>v = 3 / 131072\<close>: \<open>v * 32768 = 3 / 4\<close> rounds to 1 (under every
  rounding to nearest), and \<open>convert_value\<close> returns 0.
\<close>

theorem convert_value_round_counterexample:
  "convert_value (Finite (3 / 131072)) = Inr 0 \<and> spec_encode (3 / 131072) = 1
   \<and> convert_value (Finite (3 / 131072)) \<noteq> Inr (spec_encode (3 / 131072))"
  by (simp add: convert_value_def float_mul_32768_def py_int_def spec_encode_def round_def)

text \<open>
  C3. For every \<open>v\<close> with \<open>\<bar>v\<bar> < 1\<close>, \<open>convert_value\<close> returns a 16-bit value whose
  two's-complement reading, divided by 32768, is within \<open>1 / 32768\<close> of \<open>v\<close>.
\<close>

theorem decode_encode_within_lsb:
  assumes "\<bar>v\<bar> < 1"
  shows "\<exists>e. convert_value (Finite v) = Inr e \<and> 0 \<le> e \<and> e < 65536 \<and> \<bar>decode16 e - v\<bar> \<le> 1 / 32768"
proof -
  let ?i = "trunc_toward_zero (v * 32768)"
  let ?e = "if 0 \<le> ?i then ?i else 65536 + ?i"
  have rng: "\<bar>v * 32768\<bar> < 2 ^ 1024"
    using assms by (intro small_in_range) simp
  have cv: "convert_value (Finite v) = Inr ?e"
    by (rule convert_value_Finite [OF rng])
  have lo: "- 32768 \<le> ?i" and hi: "?i < 32768"
    using assms by (simp_all add: trunc_ge trunc_lt)
  have w: "(word_of_int ?e :: 16 word) = word_of_int ?i"
    by (simp only: wrap16 if_distrib [of word_of_int] if_cancel)
  have dec: "decode16 ?e = real_of_int ?i / 32768"
    unfolding decode16_def w by (simp only: sint16 [OF lo hi])
  have "\<bar>real_of_int ?i - v * 32768\<bar> < 1"
    by (rule trunc_bounds)
  then have "\<bar>real_of_int ?i / 32768 - v\<bar> \<le> 1 / 32768"
    by (simp add: field_simps abs_le_iff abs_less_iff)
  then have "\<bar>decode16 ?e - v\<bar> \<le> 1 / 32768"
    by (simp only: dec)
  moreover have "0 \<le> ?e \<and> ?e < 65536" using lo hi by simp
  ultimately show ?thesis using cv by blast
qed

theorem decode_encode_within_lsb_witness:
  "convert_value (Finite (- 1 / 3)) = Inr 54614 \<and> \<bar>decode16 54614 - (- 1 / 3)\<bar> \<le> 1 / 32768"
proof -
  have h: "\<bar>- 1 / 3 :: real\<bar> < 1" by simp
  have c: "convert_value (Finite (- 1 / 3)) = Inr 54614"
    by (simp add: convert_value_def float_mul_32768_def py_int_def)
  show ?thesis
    using decode_encode_within_lsb [OF h] c by auto
qed


section \<open>The synthetic provider's FIFO block\<close>





lemma playable_update [simp]: "playable (st\<lparr>stdout := out\<rparr>) = playable st"
  "playable (st\<lparr>idx := i\<rparr>) = playable st"
  by (simp_all add: playable_def)




lemma add_value_encodable:
  assumes "samples st key = Some wave" and "wave \<noteq> []"
    and "encodable (wave ! (idx st mod length wave))"
  shows "add_value bytes key st = (Inr (bytes @ big_endian_16 (wave ! (idx st mod length wave))), st)"
  using assms
  by (auto simp add: add_value_def encodable_def big_endian_16_def to_bytes_2_ok split: sum.splits)

lemma fifo_loop_step:
  assumes "drawn_encodable st 0"
  shows "fifo_loop (Suc n) bytes st = fifo_loop n (bytes @ sample_set st 0) (st\<lparr>idx := idx st + 1\<rparr>)"
proof -
  from assms obtain xs ys zs where
    s: "samples st ''x'' = Some xs" "samples st ''y'' = Some ys" "samples st ''z'' = Some zs"
    and n: "xs \<noteq> []" "ys \<noteq> []" "zs \<noteq> []"
    and e: "encodable (xs ! (idx st mod length xs))" "encodable (ys ! (idx st mod length ys))"
      "encodable (zs ! (idx st mod length zs))"
    by (auto simp add: drawn_encodable_def split: option.splits)
  show ?thesis
    by (simp add: add_value_encodable [OF s(1) n(1) e(1)] add_value_encodable [OF s(2) n(2) e(2)]
        add_value_encodable [OF s(3) n(3) e(3)] sample_set_def s)
qed

lemma drawn_encodable_shift: "drawn_encodable (st\<lparr>idx := idx st + j\<rparr>) k = drawn_encodable st (j + k)"
  by (simp add: drawn_encodable_def add.assoc cong: option.case_cong)

lemma sample_set_shift: "sample_set (st\<lparr>idx := idx st + j\<rparr>) k = sample_set st (j + k)"
  by (simp add: sample_set_def add.assoc cong: option.case_cong)

lemma drawn_encodable_Suc: "drawn_encodable (st\<lparr>idx := Suc (idx st)\<rparr>) k = drawn_encodable st (Suc k)"
  using drawn_encodable_shift [of st 1 k] by simp

lemma sample_set_Suc: "sample_set (st\<lparr>idx := Suc (idx st)\<rparr>) k = sample_set st (Suc k)"
  using sample_set_shift [of st 1 k] by simp

lemma length_sample_set: "drawn_encodable st k \<Longrightarrow> length (sample_set st k) = 6"
  by (auto simp add: drawn_encodable_def sample_set_def big_endian_16_def encodable_def
      split: option.splits sum.splits)

lemma fifo_loop_encodable:
  "(\<forall>k<n. drawn_encodable st k) \<Longrightarrow>
   fifo_loop n bytes st = (Inr (bytes @ concat (map (sample_set st) [0 ..< n])), st\<lparr>idx := idx st + n\<rparr>)"
proof (induction n arbitrary: bytes st)
  case 0
  then show ?case by simp
next
  case (Suc n)
  have d0: "drawn_encodable st 0" using Suc.prems by simp
  have dn: "\<forall>k<n. drawn_encodable (st\<lparr>idx := idx st + 1\<rparr>) k"
    using Suc.prems by (simp add: drawn_encodable_Suc)
  have "map (sample_set (st\<lparr>idx := idx st + 1\<rparr>)) [0 ..< n] = map (\<lambda>k. sample_set st (Suc k)) [0 ..< n]"
    by (simp add: sample_set_Suc)
  also have "\<dots> = map (sample_set st) (map Suc [0 ..< n])"
    by (simp only: map_map comp_def)
  also have "map Suc [0 ..< n] = [1 ..< Suc n]"
    by (simp only: map_Suc_upt One_nat_def)
  finally have m: "map (sample_set (st\<lparr>idx := idx st + 1\<rparr>)) [0 ..< n] = map (sample_set st) [1 ..< Suc n]" .
  have u: "[0 ..< Suc n] = 0 # [1 ..< Suc n]"
    by (simp add: upt_rec [of 0])
  show ?case
    unfolding fifo_loop_step [OF d0] Suc.IH [OF dn] m u by simp
qed

lemma mod_length_2: "(n::nat) mod Suc (Suc 0) = n mod 2"
  by (simp only: numeral_2_eq_2)

lemma mod_length_3: "(n::nat) mod Suc (Suc (Suc 0)) = n mod 3"
  by (simp only: numeral_3_eq_3)


lemma convert_value_small:
  "\<bar>r\<bar> \<le> 1 \<Longrightarrow> convert_value (Finite r) =
     Inr (if 0 \<le> trunc_toward_zero (r * 32768) then trunc_toward_zero (r * 32768)
          else 65536 + trunc_toward_zero (r * 32768))"
  by (simp add: convert_value_Finite small_in_range)





text \<open>
  C6. A read of the FIFO-data register with length 18, when the values drawn at the
  positions \<open>idx\<close>, \<open>idx + 1\<close>, \<open>idx + 2\<close> (modulo the waveform lengths) are encodable, returns
  the 18 bytes of three consecutive sample sets, each the big-endian 16-bit encodings of
  \<open>x\<close>, \<open>y\<close>, \<open>z\<close> in that order, and advances the cursor by exactly 3.
\<close>

theorem provide_fifo_18:
  assumes "register = MPU6050_RA_FIFO_R_W regs"
    and "register \<noteq> MPU6050_RA_INT_STATUS regs" and "register \<noteq> MPU6050_RA_FIFO_COUNTH regs"
    and "\<forall>k<3. drawn_encodable st k"
  shows "provide regs register (Some 18) st =
           (Inr (PBytes (sample_set st 0 @ sample_set st 1 @ sample_set st 2)), st\<lparr>idx := idx st + 3\<rparr>)
         \<and> length (sample_set st 0 @ sample_set st 1 @ sample_set st 2) = 18"
proof -
  have l: "fifo_loop 3 [] st = (Inr ([] @ concat (map (sample_set st) [0 ..< 3])), st\<lparr>idx := idx st + 3\<rparr>)"
    by (rule fifo_loop_encodable [OF assms(4)])
  have u: "[0 ..< 3] = [0, 1, 2::nat]" by (simp add: upt_rec)
  have "provide regs register (Some 18) st =
           (Inr (PBytes (sample_set st 0 @ sample_set st 1 @ sample_set st 2)), st\<lparr>idx := idx st + 3\<rparr>)"
    using assms(1-3) unfolding provide_def by (simp add: l u)
  moreover have "length (sample_set st 0 @ sample_set st 1 @ sample_set st 2) = 18"
    using assms(4) by (simp add: length_sample_set)
  ultimately show ?thesis by simp
qed

theorem provide_fifo_18_witness:
  "provide datasheet 116 (Some 18) short_waves =
     (Inr (PBytes [192, 0, 32, 0, 16, 0, 64, 0, 32, 0, 128, 0, 192, 0, 32, 0, 0, 0]),
      short_waves\<lparr>idx := 4\<rparr>)"
proof -
  have h1: "116 = MPU6050_RA_FIFO_R_W datasheet" by (simp add: datasheet_def)
  have h2: "116 \<noteq> MPU6050_RA_INT_STATUS datasheet" by (simp add: datasheet_def)
  have h3: "116 \<noteq> MPU6050_RA_FIFO_COUNTH datasheet" by (simp add: datasheet_def)
  have e: "encodable (Finite (1 / 2))" "encodable (Finite (- 1 / 2))" "encodable (Finite (1 / 4))"
    "encodable (Finite 0)" "encodable (Finite (1 / 8))" "encodable (Finite (- 1))"
    by (simp_all add: encodable_def convert_value_small trunc_toward_zero_def)
  have b: "big_endian_16 (Finite (1 / 2)) = [64, 0]" "big_endian_16 (Finite (- 1 / 2)) = [192, 0]"
    "big_endian_16 (Finite (1 / 4)) = [32, 0]" "big_endian_16 (Finite 0) = [0, 0]"
    "big_endian_16 (Finite (1 / 8)) = [16, 0]" "big_endian_16 (Finite (- 1)) = [128, 0]"
    by (simp_all add: big_endian_16_def convert_value_small trunc_toward_zero_def)
  have d: "drawn_encodable short_waves 0" "drawn_encodable short_waves 1" "drawn_encodable short_waves 2"
    using e by (simp_all add: drawn_encodable_def short_waves_def mod_length_2 mod_length_3)
  have h4: "\<forall>k<3. drawn_encodable short_waves k"
  proof (intro allI impI)
    fix k :: nat
    assume "k < 3"
    then have "k = 0 \<or> k = 1 \<or> k = 2" by arith
    then show "drawn_encodable short_waves k" using d by auto
  qed
  have s: "sample_set short_waves 0 = [192, 0, 32, 0, 16, 0]"
    "sample_set short_waves 1 = [64, 0, 32, 0, 128, 0]"
    "sample_set short_waves 2 = [192, 0, 32, 0, 0, 0]"
    using b by (simp_all add: sample_set_def short_waves_def mod_length_2 mod_length_3)
  have i: "idx short_waves + 3 = 4" by (simp add: short_waves_def)
  show ?thesis
    using provide_fifo_18 [OF h1 h2 h3 h4] by (simp only: s i append.simps)
qed


section \<open>The recording transport\<close>

text \<open>
  C7. \<open>read\<close> and \<open>read_block\<close> return what the data provider answers when that is not
  nothing; when there is no provider, or it answers nothing, they pop the next value of
  the queue; and when the queue is then empty they raise \<open>Empty\<close> to the caller.
\<close>

theorem mock_read_order:
  "(consult io register (Some len) = (Inr ret, io') \<and> ret \<noteq> PNone \<longrightarrow>
      read_block io i2c_address register len = (Inr ret, io'))
   \<and> (consult io register (Some len) = (Inr PNone, io') \<and> vals_to_read io' = v # vs \<longrightarrow>
      read_block io i2c_address register len = (Inr v, io'\<lparr>vals_to_read := vs\<rparr>))
   \<and> (consult io register (Some len) = (Inr PNone, io') \<and> vals_to_read io' = [] \<longrightarrow>
      read_block io i2c_address register len = (Inl Empty, io'))
   \<and> (consult io register None = (Inr ret, io') \<and> ret \<noteq> PNone \<longrightarrow>
      read io i2c_address register = (Inr ret, io'))
   \<and> (consult io register None = (Inr PNone, io') \<and> vals_to_read io' = v # vs \<longrightarrow>
      read io i2c_address register = (Inr v, io'\<lparr>vals_to_read := vs\<rparr>))
   \<and> (consult io register None = (Inr PNone, io') \<and> vals_to_read io' = [] \<longrightarrow>
      read io i2c_address register = (Inl Empty, io'))"
  by (cases ret) (auto simp add: consult_def read_block_def read_def get_nowait_def
      split: option.splits prod.splits sum.splits)


theorem mock_read_order_witness:
  "read_block \<lparr>values_written = [], data_provider = Some (\<lambda>r l s. (Inr (PInt 7), s)),
       provider_state = (), vals_to_read = [PInt 5]\<rparr> 104 58 1
     = (Inr (PInt 7), \<lparr>values_written = [], data_provider = Some (\<lambda>r l s. (Inr (PInt 7), s)),
       provider_state = (), vals_to_read = [PInt 5]\<rparr>)
   \<and> read_block \<lparr>values_written = [], data_provider = Some (\<lambda>r l s. (Inr PNone, s)),
       provider_state = (), vals_to_read = [PInt 5]\<rparr> 104 58 1
     = (Inr (PInt 5), \<lparr>values_written = [], data_provider = Some (\<lambda>r l s. (Inr PNone, s)),
       provider_state = (), vals_to_read = []\<rparr>)
   \<and> read_block \<lparr>values_written = [], data_provider = None,
       provider_state = (), vals_to_read = []\<rparr> 104 58 1
     = (Inl Empty, \<lparr>values_written = [], data_provider = None,
       provider_state = (), vals_to_read = []\<rparr>)
   \<and> read \<lparr>values_written = [], data_provider = Some (\<lambda>r l s. (Inr (PInt 7), s)),
       provider_state = (), vals_to_read = [PInt 5]\<rparr> 104 58
     = (Inr (PInt 7), \<lparr>values_written = [], data_provider = Some (\<lambda>r l s. (Inr (PInt 7), s)),
       provider_state = (), vals_to_read = [PInt 5]\<rparr>)
   \<and> read \<lparr>values_written = [], data_provider = Some (\<lambda>r l s. (Inr PNone, s)),
       provider_state = (), vals_to_read = [PInt 5]\<rparr> 104 58
     = (Inr (PInt 5), \<lparr>values_written = [], data_provider = Some (\<lambda>r l s. (Inr PNone, s)),
       provider_state = (), vals_to_read = []\<rparr>)
   \<and> read \<lparr>values_written = [], data_provider = None,
       provider_state = (), vals_to_read = []\<rparr> 104 58
     = (Inl Empty, \<lparr>values_written = [], data_provider = None,
       provider_state = (), vals_to_read = []\<rparr>)"
proof -
  let ?answer = "\<lparr>values_written = [], data_provider = Some (\<lambda>r l s. (Inr (PInt 7), s)),
       provider_state = (), vals_to_read = [PInt 5]\<rparr>"
  let ?nothing = "\<lparr>values_written = [], data_provider = Some (\<lambda>r l s. (Inr PNone, s)),
       provider_state = (), vals_to_read = [PInt 5]\<rparr>"
  let ?absent = "\<lparr>values_written = [], data_provider = None,
       provider_state = (), vals_to_read = [] :: pyval list\<rparr>"
  have c1: "consult ?answer 58 l = (Inr (PInt 7), ?answer)" for l
    by (simp add: consult_def)
  have c2: "consult ?nothing 58 l = (Inr PNone, ?nothing)" for l
    by (simp add: consult_def)
  have c3: "consult ?absent 58 l = (Inr PNone, ?absent)" for l
    by (simp add: consult_def)
  show ?thesis
    using mock_read_order [where io = ?answer and register = 58 and len = 1 and ret = "PInt 7"
        and io' = ?answer and v = "PInt 5" and vs = "[]" and ?i2c_address = 104]
      mock_read_order [where io = ?nothing and register = 58 and len = 1 and ret = "PInt 7"
        and io' = ?nothing and v = "PInt 5" and vs = "[]" and ?i2c_address = 104]
      mock_read_order [where io = ?absent and register = 58 and len = 1 and ret = "PInt 7"
        and io' = ?absent and v = "PInt 5" and vs = "[]" and ?i2c_address = 104]
    by (simp add: c1 c2 c3)
qed


section \<open>The command protocol\<close>

lemma split_on_not_Nil: "split_on sep s \<noteq> []"
  by (induction s) (auto split: list.splits)

lemma split_on_no_sep: "sep \<notin> set a \<Longrightarrow> split_on sep a = [a]"
  by (induction a) auto

lemma split_on_append: "sep \<notin> set a \<Longrightarrow> split_on sep (a @ sep # rest) = a # split_on sep rest"
  by (induction a) auto

lemma hd_split_on: "hd (split_on sep s) = takeWhile (\<lambda>c. c \<noteq> sep) s"
  by (induction s) (auto split: list.splits simp: split_on_not_Nil)

lemma getitem_0_split_on: "getitem (split_on sep s) 0 = Inr (takeWhile (\<lambda>c. c \<noteq> sep) s)"
  using split_on_not_Nil [of sep s] hd_split_on [of sep s]
  by (cases "split_on sep s") (simp_all add: getitem_def)

lemma Command_getitem_unknown:
  "name \<notin> {''GET'', ''SET'', ''STR''} \<Longrightarrow> Command_getitem name = Inl KeyError"
  by (simp add: Command_getitem_def)

lemma events_sendLine: "events (sendLine l st) = events st @ [SendLine l]"
  by (simp add: sendLine_def)

lemma send_device_state_eq:
  "send_device_state dumps j st = st\<lparr>events := events st @ [SendLine (length_prefixed (dumps j))]\<rparr>"
  by (simp add: send_device_state_def sendLine_def length_prefixed_def Let_def)

lemma send_all_device_states_eq:
  "send_all_device_states dumps st =
     st\<lparr>events := events st @ [SendLine (length_prefixed (dumps (all_states st)))]\<rparr>"
  by (simp add: send_all_device_states_def send_device_state_eq all_states_def)

lemma foldl_accept:
  "foldl (\<lambda>s h. accept h b s) st hs = st\<lparr>events := events st @ map (\<lambda>h. Accept h b) hs\<rparr>"
  by (induction hs arbitrary: st) (simp_all add: accept_def)

lemma connectionMade_eq:
  "connectionMade dumps st =
     st\<lparr>events := events st @ SendLine (length_prefixed (dumps (all_states st)))
                       # map (\<lambda>h. Accept h True) (handlers st)\<rparr>"
  by (simp add: connectionMade_def foldl_accept send_all_device_states_eq)

lemma handle_get_events: "\<exists>es. events (snd (handle_get dumps tokens st)) = events st @ es"
  by (auto simp add: handle_get_def send_device_state_eq send_all_device_states_eq
      split: sum.splits option.splits)

lemma handle_str_events: "\<exists>es. events (snd (handle_str dumps tokens st)) = events st @ es"
  by (auto simp add: handle_str_def events_sendLine split: sum.splits option.splits)

lemma handle_set_events: "\<exists>es. events (snd (handle_set loads dumps tokens st)) = events st @ es"
  by (auto simp add: handle_set_def send_device_state_eq
      split: sum.splits option.splits bool.splits json.splits)

lemma dispatch_events: "\<exists>es. events (snd (dispatch loads dumps tokens st)) = events st @ es"
proof (cases "getitem tokens 0")
  case (Inl e)
  then show ?thesis by (simp add: dispatch_def)
next
  case t0: (Inr t0)
  show ?thesis
  proof (cases "Command_getitem t0")
    case (Inl e)
    then show ?thesis by (simp add: dispatch_def t0)
  next
    case (Inr cmd)
    then show ?thesis
      by (cases cmd) (simp_all add: dispatch_def t0 handle_get_events handle_set_events handle_str_events)
  qed
qed

lemma lineReceived_dispatch:
  assumes "decode line = Some text"
  shows "fst (lineReceived decode loads dumps line st) = Inr ()"
    and "events (snd (lineReceived decode loads dumps line st))
           = events (snd (dispatch loads dumps (split_on CHR ''|'' text) st))"
    and "devices (snd (lineReceived decode loads dumps line st))
           = devices (snd (dispatch loads dumps (split_on CHR ''|'' text) st))"
  by (auto simp add: lineReceived_def assms Let_def split: prod.splits sum.splits)

lemma lineReceived_events: "\<exists>es. events (snd (lineReceived decode loads dumps line st)) = events st @ es"
proof (cases "decode line")
  case None
  then show ?thesis by (simp add: lineReceived_def)
next
  case (Some decoded)
  then show ?thesis
    using dispatch_events [of loads dumps "split_on CHR ''|'' decoded" st]
    by (simp only: lineReceived_dispatch(2) [of decode line decoded, OF Some])
qed

lemma run_lines_events: "\<exists>es. events (snd (run_lines decode loads dumps lines st)) = events st @ es"
proof (induction lines arbitrary: st)
  case Nil
  then show ?case by simp
next
  case (Cons line lines)
  obtain r st' where r: "lineReceived decode loads dumps line st = (r, st')"
    by (cases "lineReceived decode loads dumps line st")
  from lineReceived_events [of decode loads dumps line st] r
  obtain es where es: "events st' = events st @ es" by auto
  show ?case
  proof (cases r)
    case (Inl e)
    then show ?thesis using r es by simp
  next
    case (Inr u)
    from Cons.IH [of st'] obtain es' where "events (snd (run_lines decode loads dumps lines st')) = events st' @ es'"
      by blast
    then show ?thesis using r es Inr by simp
  qed
qed

lemma map_of_set_state:
  "map_of (set_state n s devs) k =
     (if k = n then map_option (\<lambda>d. d\<lparr>state := s\<rparr>) (map_of devs k) else map_of devs k)"
  by (induction devs) (auto simp add: set_state_def)

lemma map_fst_set_state: "map fst (set_state n s devs) = map fst devs"
  by (induction devs) (auto simp add: set_state_def)

lemma handle_set_accepts:
  assumes "getitem tokens 1 = Inr arg" and "loads arg = Inr (JObject kvs)"
    and "map_of kvs ''name'' = Some (JString n)" and "n \<in> set (map fst (devices st))"
  shows "handle_set loads dumps tokens st =
           (Inr (), st\<lparr>devices := set_state n (JObject kvs) (devices st),
                       events := events st @ [SendLine (length_prefixed (dumps (JObject kvs)))]\<rparr>)"
proof -
  have k: "''name'' \<in> set (map fst kvs)"
    using assms(3) by (metis map_of_eq_None_iff option.distinct(1) set_map)
  show ?thesis
    unfolding handle_set_def
    using assms k by (simp add: py_in_def py_getitem_def in_devices_def send_device_state_eq)
qed

lemma handle_set_rejects:
  assumes "\<not> (\<exists>arg kvs n. getitem tokens 1 = Inr arg \<and> loads arg = Inr (JObject kvs)
              \<and> map_of kvs ''name'' = Some (JString n) \<and> n \<in> set (map fst (devices st)))"
  shows "snd (handle_set loads dumps tokens st) = st"
  using assms unfolding handle_set_def
  by (auto simp add: py_in_def py_getitem_def in_devices_def
      split: sum.splits bool.splits json.splits option.splits)

lemma handle_set_second_token:
  "handle_set loads dumps (t0 # arg # ts) st = handle_set loads dumps [t0', arg] st"
  by (simp add: handle_set_def getitem_def)

lemma handle_get_second_token:
  "handle_get dumps (t0 # arg # ts) st = handle_get dumps [t0', arg] st"
  by (simp add: handle_get_def getitem_def)

lemma dispatch_SET: "dispatch loads dumps (''SET'' # ts) st = handle_set loads dumps (''SET'' # ts) st"
  by (simp add: dispatch_def getitem_def Command_getitem_def)

lemma dispatch_GET: "dispatch loads dumps (''GET'' # ts) st = handle_get dumps (''GET'' # ts) st"
  by (simp add: dispatch_def getitem_def Command_getitem_def)

lemma split_on_command:
  assumes "CHR ''|'' \<notin> set cmd" and "CHR ''|'' \<notin> set arg"
  shows "split_on CHR ''|'' (cmd @ CHR ''|'' # arg @ CHR ''|'' # rest) = cmd # arg # split_on CHR ''|'' rest"
  by (simp only: split_on_append [OF assms(1)] split_on_append [OF assms(2)])

lemma frame_all_states:
  \<open>length_prefixed ''[{"name": "imu0", "rate": 100}]'' = ''31|[{"name": "imu0", "rate": 100}]''\<close>
  by code_simp

lemma frame_new_state:
  \<open>length_prefixed ''{"name": "imu0", "rate": 200}'' = ''29|{"name": "imu0", "rate": 200}''\<close>
  by code_simp

lemma frame_old_state:
  \<open>length_prefixed ''{"name": "imu0", "rate": 100}'' = ''29|{"name": "imu0", "rate": 100}''\<close>
  by code_simp

lemma lineReceived_undecodable:
  "decode line = None \<Longrightarrow> lineReceived decode loads dumps line st = (Inl UnicodeDecodeError, st)"
  by (simp add: lineReceived_def)

text \<open>
  On a line that decodes, an unknown command is logged and ignored: when the first token,
  the text before the first bar, is none of \<open>GET\<close>, \<open>SET\<close>, \<open>STR\<close>, \<open>lineReceived\<close> returns
  without raising, the line is logged as an unknown command, no line is sent and every
  device keeps its state.
\<close>

lemma unknown_command_ignored:
  assumes "first_token decode line = Some t" and "t \<notin> {''GET'', ''SET'', ''STR''}"
  shows "lineReceived decode loads dumps line st = (Inr (), st\<lparr>logged := logged st @ [UnknownCommand line]\<rparr>)
         \<and> events (snd (lineReceived decode loads dumps line st)) = events st
         \<and> devices (snd (lineReceived decode loads dumps line st)) = devices st"
proof -
  from assms(1) obtain decoded where dec: "decode line = Some decoded"
    and t: "t = takeWhile (\<lambda>c. c \<noteq> CHR ''|'') decoded"
    by (auto simp add: first_token_def)
  have d: "dispatch loads dumps (split_on CHR ''|'' decoded) st = (Inl KeyError, st)"
    unfolding dispatch_def getitem_0_split_on
    using assms(2) by (simp add: Command_getitem_unknown t)
  have "lineReceived decode loads dumps line st = (Inr (), st\<lparr>logged := logged st @ [UnknownCommand line]\<rparr>)"
    unfolding lineReceived_def by (simp add: dec d)
  then show ?thesis by simp
qed

lemma unknown_command_ignored_example:
  "lineReceived utf8_decode scenario_loads scenario_dumps ''PUT|imu0'' scenario
     = (Inr (), scenario\<lparr>logged := [UnknownCommand ''PUT|imu0'']\<rparr>)"
proof -
  have h1: "first_token utf8_decode ''PUT|imu0'' = Some ''PUT''"
    by (simp add: first_token_def utf8_decode_def)
  have h2: "''PUT'' \<notin> {''GET'', ''SET'', ''STR''}" by simp
  have l: "logged scenario = []" by (simp add: scenario_def)
  show ?thesis
    using unknown_command_ignored [OF h1 h2, of scenario_loads scenario_dumps scenario]
    by (simp add: l)
qed

text \<open>
  C8 asks that every received line whose first bar-delimited token is none of \<open>GET\<close>,
  \<open>SET\<close>, \<open>STR\<close> be logged and ignored, with no reply and the connection kept. The code
  misses the line that is not well-formed UTF-8: the line of the bytes \<open>PUT|\<close> and \<open>0xFF\<close> has
  the first token \<open>PUT\<close>, yet the decoding, which is outside the \<open>try\<close>, raises
  UnicodeDecodeError out of \<open>lineReceived\<close>, and nothing is logged.
\<close>

theorem unknown_command_undecodable_line:
  "takeWhile (\<lambda>c. c \<noteq> CHR ''|'') (''PUT|'' @ [CHR 0xFF]) = ''PUT''
   \<and> ''PUT'' \<notin> {''GET'', ''SET'', ''STR''}
   \<and> lineReceived utf8_decode scenario_loads scenario_dumps (''PUT|'' @ [CHR 0xFF]) scenario
       = (Inl UnicodeDecodeError, scenario)"
  by (simp add: lineReceived_def utf8_decode_def)

text \<open>
  C9. On a connection that has sent nothing yet, \<open>connectionMade\<close> first sends one
  length-prefixed frame whose JSON text is the array of the states of all devices at that
  moment, and only then registers the connection with each handler; whatever lines follow,
  that frame stays the first event of the connection.
\<close>

theorem connectionMade_first_frame:
  assumes "events st = []"
  shows "events (connectionMade dumps st)
           = SendLine (length_prefixed (dumps (all_states st))) # map (\<lambda>h. Accept h True) (handlers st)
         \<and> (\<exists>rest. events (snd (connection decode loads dumps lines st))
                = SendLine (length_prefixed (dumps (all_states st))) # rest)"
proof
  show c: "events (connectionMade dumps st)
           = SendLine (length_prefixed (dumps (all_states st))) # map (\<lambda>h. Accept h True) (handlers st)"
    by (simp add: connectionMade_eq assms)
  from run_lines_events [of decode loads dumps lines "connectionMade dumps st"]
  obtain es where "events (snd (connection decode loads dumps lines st)) = events (connectionMade dumps st) @ es"
    unfolding connection_def by blast
  then show "\<exists>rest. events (snd (connection decode loads dumps lines st))
                = SendLine (length_prefixed (dumps (all_states st))) # rest"
    by (simp add: c)
qed


theorem connectionMade_first_frame_witness:
  \<open>events (connectionMade scenario_dumps scenario)
     = [SendLine ''31|[{"name": "imu0", "rate": 100}]'', Accept 0 True]
   \<and> (\<exists>rest. events (snd (connection Some scenario_loads scenario_dumps
                  [''SET|{"name": "imu0", "rate": 200}'', ''GET''] scenario))
          = SendLine ''31|[{"name": "imu0", "rate": 100}]'' # rest)\<close>
proof -
  have h: "events scenario = []" by (simp add: scenario_def)
  have a: \<open>scenario_dumps (all_states scenario) = ''[{"name": "imu0", "rate": 100}]''\<close>
    by (simp add: all_states_def scenario_def scenario_dumps_def)
  have hs: "handlers scenario = [0]" by (simp add: scenario_def)
  show ?thesis
    using connectionMade_first_frame [OF h, of scenario_dumps Some scenario_loads
        \<open>[''SET|{"name": "imu0", "rate": 200}'', ''GET'']\<close>]
    by (simp add: a frame_all_states hs)
qed

text \<open>
  C4. When the second token of a \<open>SET\<close> line parses as a mapping whose \<open>name\<close> is a device
  of the registry, \<open>handle_set\<close> replaces the whole state of that device by the mapping
  (the registry keeps its keys, every other device keeps its state) and sends one
  length-prefixed frame with the new state. In every other case, among them a mapping
  without \<open>name\<close> and a \<open>name\<close> that is no device of the registry, no device changes and
  nothing is sent.
\<close>

theorem handle_set_replaces_state:
  "(getitem tokens 1 = Inr arg \<and> loads arg = Inr (JObject kvs)
      \<and> map_of kvs ''name'' = Some (JString n) \<and> n \<in> set (map fst (devices st))
    \<longrightarrow> handle_set loads dumps tokens st =
          (Inr (), st\<lparr>devices := set_state n (JObject kvs) (devices st),
                      events := events st @ [SendLine (length_prefixed (dumps (JObject kvs)))]\<rparr>)
        \<and> map fst (devices (snd (handle_set loads dumps tokens st))) = map fst (devices st)
        \<and> (\<forall>k. map_of (devices (snd (handle_set loads dumps tokens st))) k =
               (if k = n then map_option (\<lambda>d. d\<lparr>state := JObject kvs\<rparr>) (map_of (devices st) k)
                else map_of (devices st) k)))
   \<and> (\<not> (\<exists>arg kvs n. getitem tokens 1 = Inr arg \<and> loads arg = Inr (JObject kvs)
              \<and> map_of kvs ''name'' = Some (JString n) \<and> n \<in> set (map fst (devices st)))
    \<longrightarrow> devices (snd (handle_set loads dumps tokens st)) = devices st
        \<and> events (snd (handle_set loads dumps tokens st)) = events st)"
proof (intro conjI impI)
  assume a: "getitem tokens 1 = Inr arg \<and> loads arg = Inr (JObject kvs)
      \<and> map_of kvs ''name'' = Some (JString n) \<and> n \<in> set (map fst (devices st))"
  have a1: "getitem tokens 1 = Inr arg" and a2: "loads arg = Inr (JObject kvs)"
    and a3: "map_of kvs ''name'' = Some (JString n)" and a4: "n \<in> set (map fst (devices st))"
    using a by blast+
  have h: "handle_set loads dumps tokens st =
          (Inr (), st\<lparr>devices := set_state n (JObject kvs) (devices st),
                      events := events st @ [SendLine (length_prefixed (dumps (JObject kvs)))]\<rparr>)"
    using a1 a2 a3 a4 by (rule handle_set_accepts)
  show "handle_set loads dumps tokens st =
          (Inr (), st\<lparr>devices := set_state n (JObject kvs) (devices st),
                      events := events st @ [SendLine (length_prefixed (dumps (JObject kvs)))]\<rparr>)"
    by (rule h)
  show "map fst (devices (snd (handle_set loads dumps tokens st))) = map fst (devices st)"
    by (simp add: h map_fst_set_state)
  show "\<forall>k. map_of (devices (snd (handle_set loads dumps tokens st))) k =
               (if k = n then map_option (\<lambda>d. d\<lparr>state := JObject kvs\<rparr>) (map_of (devices st) k)
                else map_of (devices st) k)"
    by (simp add: h map_of_set_state)
next
  assume r: "\<not> (\<exists>arg kvs n. getitem tokens 1 = Inr arg \<and> loads arg = Inr (JObject kvs)
              \<and> map_of kvs ''name'' = Some (JString n) \<and> n \<in> set (map fst (devices st)))"
  show "devices (snd (handle_set loads dumps tokens st)) = devices st"
    by (simp only: handle_set_rejects [OF r])
  show "events (snd (handle_set loads dumps tokens st)) = events st"
    by (simp only: handle_set_rejects [OF r])
qed

theorem handle_set_replaces_state_witness:
  \<open>handle_set scenario_loads scenario_dumps [''SET'', ''{"name": "imu0", "rate": 200}''] scenario =
     (Inr (),
      \<lparr>devices = [(''imu0'', \<lparr>state = JObject [(''name'', JString ''imu0''), (''rate'', JInt 200)],
                                self_test_results = JNull\<rparr>)],
       handlers = [0],
       events = [SendLine ''29|{"name": "imu0", "rate": 200}''],
       logged = []\<rparr>)
   \<and> devices (snd (handle_set scenario_loads scenario_dumps [''SET'', ''{"name": "unknown"}''] scenario))
       = devices scenario
   \<and> events (snd (handle_set scenario_loads scenario_dumps [''SET'', ''{"name": "unknown"}''] scenario))
       = events scenario\<close>
proof -
  let ?kvs = "[(''name'', JString ''imu0''), (''rate'', JInt 200)]"
  have a: \<open>getitem [''SET'', ''{"name": "imu0", "rate": 200}''] 1 = Inr ''{"name": "imu0", "rate": 200}''
      \<and> scenario_loads ''{"name": "imu0", "rate": 200}'' = Inr (JObject ?kvs)
      \<and> map_of ?kvs ''name'' = Some (JString ''imu0'') \<and> ''imu0'' \<in> set (map fst (devices scenario))\<close>
    by (simp add: getitem_def scenario_loads_def scenario_def)
  have r: \<open>\<not> (\<exists>arg kvs n. getitem [''SET'', ''{"name": "unknown"}''] 1 = Inr arg
      \<and> scenario_loads arg = Inr (JObject kvs)
      \<and> map_of kvs ''name'' = Some (JString n) \<and> n \<in> set (map fst (devices scenario)))\<close>
    by (auto simp add: getitem_def scenario_loads_def scenario_def)
  have d: "scenario_dumps (JObject ?kvs) = ''{\"name\": \"imu0\", \"rate\": 200}''"
    by (simp add: scenario_dumps_def)
  show ?thesis
    using handle_set_replaces_state [of \<open>[''SET'', ''{"name": "imu0", "rate": 200}'']\<close>
        \<open>''{"name": "imu0", "rate": 200}''\<close> scenario_loads ?kvs "''imu0''" scenario scenario_dumps,
        THEN conjunct1, rule_format, OF a]
      handle_set_replaces_state [of \<open>[''SET'', ''{"name": "unknown"}'']\<close> _ scenario_loads _ _ scenario
        scenario_dumps, THEN conjunct2, rule_format, OF r]
    by (simp add: d frame_new_state) (simp add: scenario_def set_state_def)
qed


lemma handle_set_parse_error:
  "getitem tokens 1 = Inr arg \<Longrightarrow> loads arg = Inl e \<Longrightarrow> handle_set loads dumps tokens st = (Inl e, st)"
  by (simp add: handle_set_def)

lemma handle_set_same_parse:
  "getitem tokens 1 = Inr arg \<Longrightarrow> loads' arg = loads arg \<Longrightarrow>
   handle_set loads' dumps tokens st = handle_set loads dumps tokens st"
  by (simp add: handle_set_def)

lemma lineReceived_SET:
  assumes "CHR ''|'' \<notin> set arg" and "decode line = Some (''SET|'' @ arg @ CHR ''|'' # rest)"
  shows "lineReceived decode loads dumps line st =
           (case handle_set loads dumps (''SET'' # arg # split_on CHR ''|'' rest) st of
              (Inr u, st') \<Rightarrow> (Inr (), st')
            | (Inl e, st') \<Rightarrow>
                if e = KeyError then (Inr (), st'\<lparr>logged := logged st' @ [UnknownCommand line]\<rparr>)
                else (Inr (), st'\<lparr>logged := logged st' @ [FailedToHandle line e]\<rparr>))"
proof -
  have c: "CHR ''|'' \<notin> set ''SET''" by simp
  have "split_on CHR ''|'' (''SET'' @ CHR ''|'' # arg @ CHR ''|'' # rest) = ''SET'' # arg # split_on CHR ''|'' rest"
    by (rule split_on_command [OF c assms(1)])
  then have s: "split_on CHR ''|'' (''SET|'' @ arg @ CHR ''|'' # rest) = ''SET'' # arg # split_on CHR ''|'' rest"
    by simp
  show ?thesis
    unfolding lineReceived_def by (simp only: assms(2) option.case Let_def s dispatch_SET)
qed

text \<open>
  C10. The line is split at every bar before the command is dispatched: in a \<open>SET\<close> or
  \<open>GET\<close> line with a second bar, the argument is the text between the first two bars. The
  JSON parser is applied to that argument and to nothing else: the outcome of a \<open>SET\<close> line
  is the same under any two parsers that agree on the argument, a parse error of the
  argument is the failure that is logged, and a mapping parsed from the argument that
  names a known device is the state that is set and echoed. What follows the second bar
  is ignored, by \<open>SET\<close> and by \<open>GET\<close>, so a JSON payload that holds a bar is never parsed as
  it was sent.
\<close>

theorem tokens_after_second_pipe_ignored:
  assumes "CHR ''|'' \<notin> set arg"
  shows "split_on CHR ''|'' (''SET|'' @ arg @ CHR ''|'' # rest) = ''SET'' # arg # split_on CHR ''|'' rest
       \<and> (decode line = Some (''SET|'' @ arg @ CHR ''|'' # rest) \<longrightarrow>
            fst (lineReceived decode loads dumps line st) = Inr ()
          \<and> devices (snd (lineReceived decode loads dumps line st))
              = devices (snd (handle_set loads dumps [''SET'', arg] st))
          \<and> events (snd (lineReceived decode loads dumps line st))
              = events (snd (handle_set loads dumps [''SET'', arg] st))
          \<and> (\<forall>e. loads arg = Inl e \<longrightarrow>
                lineReceived decode loads dumps line st =
                  (Inr (), st\<lparr>logged := logged st @
                     [if e = KeyError then UnknownCommand line else FailedToHandle line e]\<rparr>))
          \<and> (\<forall>kvs n. loads arg = Inr (JObject kvs) \<and> map_of kvs ''name'' = Some (JString n)
                  \<and> n \<in> set (map fst (devices st)) \<longrightarrow>
                lineReceived decode loads dumps line st =
                  (Inr (), st\<lparr>devices := set_state n (JObject kvs) (devices st),
                              events := events st @ [SendLine (length_prefixed (dumps (JObject kvs)))]\<rparr>))
          \<and> (\<forall>loads'. loads' arg = loads arg \<longrightarrow>
                lineReceived decode loads' dumps line st = lineReceived decode loads dumps line st))
       \<and> (decode line = Some (''GET|'' @ arg @ CHR ''|'' # rest) \<longrightarrow>
            fst (lineReceived decode loads dumps line st) = Inr ()
          \<and> devices (snd (lineReceived decode loads dumps line st))
              = devices (snd (handle_get dumps [''GET'', arg] st))
          \<and> events (snd (lineReceived decode loads dumps line st))
              = events (snd (handle_get dumps [''GET'', arg] st)))"
proof (intro conjI impI allI)
  have c: "CHR ''|'' \<notin> set ''SET''" "CHR ''|'' \<notin> set ''GET''" by simp_all
  have s: "split_on CHR ''|'' (''SET'' @ CHR ''|'' # arg @ CHR ''|'' # rest) = ''SET'' # arg # split_on CHR ''|'' rest"
    by (rule split_on_command [OF c(1) assms])
  have g: "split_on CHR ''|'' (''GET'' @ CHR ''|'' # arg @ CHR ''|'' # rest) = ''GET'' # arg # split_on CHR ''|'' rest"
    by (rule split_on_command [OF c(2) assms])
  show s': "split_on CHR ''|'' (''SET|'' @ arg @ CHR ''|'' # rest) = ''SET'' # arg # split_on CHR ''|'' rest"
    using s by simp
  have g': "split_on CHR ''|'' (''GET|'' @ arg @ CHR ''|'' # rest) = ''GET'' # arg # split_on CHR ''|'' rest"
    using g by simp
  have t1: "getitem (''SET'' # arg # split_on CHR ''|'' rest) 1 = Inr arg"
    by (simp add: getitem_def)
  {
    assume d: "decode line = Some (''SET|'' @ arg @ CHR ''|'' # rest)"
    have lr: "lineReceived decode ld dumps line st =
           (case handle_set ld dumps (''SET'' # arg # split_on CHR ''|'' rest) st of
              (Inr u, st') \<Rightarrow> (Inr (), st')
            | (Inl e, st') \<Rightarrow>
                if e = KeyError then (Inr (), st'\<lparr>logged := logged st' @ [UnknownCommand line]\<rparr>)
                else (Inr (), st'\<lparr>logged := logged st' @ [FailedToHandle line e]\<rparr>))" for ld
      using assms d by (rule lineReceived_SET)
    show "fst (lineReceived decode loads dumps line st) = Inr ()"
      by (rule lineReceived_dispatch(1) [of decode line _ loads dumps st, OF d])
    show "devices (snd (lineReceived decode loads dumps line st))
              = devices (snd (handle_set loads dumps [''SET'', arg] st))"
      by (simp only: lineReceived_dispatch(3) [of decode line _ loads dumps st, OF d] s' dispatch_SET
          handle_set_second_token [of loads dumps "''SET''" arg "split_on CHR ''|'' rest" st "''SET''"])
    show "events (snd (lineReceived decode loads dumps line st))
              = events (snd (handle_set loads dumps [''SET'', arg] st))"
      by (simp only: lineReceived_dispatch(2) [of decode line _ loads dumps st, OF d] s' dispatch_SET
          handle_set_second_token [of loads dumps "''SET''" arg "split_on CHR ''|'' rest" st "''SET''"])
    {
      fix e
      assume e: "loads arg = Inl e"
      have "handle_set loads dumps (''SET'' # arg # split_on CHR ''|'' rest) st = (Inl e, st)"
        using t1 e by (rule handle_set_parse_error)
      then show "lineReceived decode loads dumps line st =
                  (Inr (), st\<lparr>logged := logged st @
                     [if e = KeyError then UnknownCommand line else FailedToHandle line e]\<rparr>)"
        by (simp add: lr)
    }
    {
      fix kvs n
      assume a: "loads arg = Inr (JObject kvs) \<and> map_of kvs ''name'' = Some (JString n)
                  \<and> n \<in> set (map fst (devices st))"
      then have a2: "loads arg = Inr (JObject kvs)" and a3: "map_of kvs ''name'' = Some (JString n)"
        and a4: "n \<in> set (map fst (devices st))"
        by blast+
      have "handle_set loads dumps (''SET'' # arg # split_on CHR ''|'' rest) st =
          (Inr (), st\<lparr>devices := set_state n (JObject kvs) (devices st),
                      events := events st @ [SendLine (length_prefixed (dumps (JObject kvs)))]\<rparr>)"
        using t1 a2 a3 a4 by (rule handle_set_accepts)
      then show "lineReceived decode loads dumps line st =
                  (Inr (), st\<lparr>devices := set_state n (JObject kvs) (devices st),
                              events := events st @ [SendLine (length_prefixed (dumps (JObject kvs)))]\<rparr>)"
        by (simp add: lr)
    }
    {
      fix loads'
      assume l: "loads' arg = loads arg"
      have "handle_set loads' dumps (''SET'' # arg # split_on CHR ''|'' rest) st
          = handle_set loads dumps (''SET'' # arg # split_on CHR ''|'' rest) st"
        using t1 l by (rule handle_set_same_parse)
      then show "lineReceived decode loads' dumps line st = lineReceived decode loads dumps line st"
        by (simp only: lr)
    }
  }
  {
    assume d: "decode line = Some (''GET|'' @ arg @ CHR ''|'' # rest)"
    show "fst (lineReceived decode loads dumps line st) = Inr ()"
      by (rule lineReceived_dispatch(1) [of decode line _ loads dumps st, OF d])
    show "devices (snd (lineReceived decode loads dumps line st))
              = devices (snd (handle_get dumps [''GET'', arg] st))"
      by (simp only: lineReceived_dispatch(3) [of decode line _ loads dumps st, OF d] g' dispatch_GET
          handle_get_second_token [of dumps "''GET''" arg "split_on CHR ''|'' rest" st "''GET''"])
    show "events (snd (lineReceived decode loads dumps line st))
              = events (snd (handle_get dumps [''GET'', arg] st))"
      by (simp only: lineReceived_dispatch(2) [of decode line _ loads dumps st, OF d] g' dispatch_GET
          handle_get_second_token [of dumps "''GET''" arg "split_on CHR ''|'' rest" st "''GET''"])
  }
qed


theorem tokens_after_second_pipe_ignored_witness:
  \<open>split_on CHR ''|'' ''SET|{"name": "imu0", "axes": "x|y"}'' = [''SET'', ''{"name": "imu0", "axes": "x'', ''y"}'']
   \<and> lineReceived Some scenario_loads scenario_dumps ''SET|{"name": "imu0", "axes": "x|y"}'' scenario
       = (Inr (), scenario\<lparr>logged := [FailedToHandle ''SET|{"name": "imu0", "axes": "x|y"}'' JSONDecodeError]\<rparr>)
   \<and> lineReceived Some scenario_loads scenario_dumps ''SET|{"name": "imu0", "rate": 200}|{"rate": 300}'' scenario
       = (Inr (),
          \<lparr>devices = [(''imu0'', \<lparr>state = JObject [(''name'', JString ''imu0''), (''rate'', JInt 200)],
                                    self_test_results = JNull\<rparr>)],
           handlers = [0],
           events = [SendLine ''29|{"name": "imu0", "rate": 200}''],
           logged = []\<rparr>)
   \<and> devices (snd (lineReceived Some scenario_loads scenario_dumps ''SET|{"name": "imu0", "axes": "x|y"}'' scenario))
       = devices scenario
   \<and> events (snd (lineReceived Some scenario_loads scenario_dumps ''SET|{"name": "imu0", "axes": "x|y"}'' scenario))
       = events scenario
   \<and> events (snd (lineReceived Some scenario_loads scenario_dumps ''GET|imu0|more'' scenario))
       = [SendLine ''29|{"name": "imu0", "rate": 100}'']\<close>
proof -
  let ?kvs = "[(''name'', JString ''imu0''), (''rate'', JInt 200)]"
  have n1: \<open>CHR ''|'' \<notin> set ''{"name": "imu0", "axes": "x''\<close> by simp
  have n2: "CHR ''|'' \<notin> set ''imu0''" by simp
  have n3: \<open>CHR ''|'' \<notin> set ''{"name": "imu0", "rate": 200}''\<close> by simp
  have d1: \<open>Some ''SET|{"name": "imu0", "axes": "x|y"}'' = Some (''SET|'' @ ''{"name": "imu0", "axes": "x'' @ CHR ''|'' # ''y"}'')\<close>
    by simp
  have d2: "Some ''GET|imu0|more'' = Some (''GET|'' @ ''imu0'' @ CHR ''|'' # ''more'')"
    by simp
  have d3: \<open>Some ''SET|{"name": "imu0", "rate": 200}|{"rate": 300}''
      = Some (''SET|'' @ ''{"name": "imu0", "rate": 200}'' @ CHR ''|'' # ''{"rate": 300}'')\<close>
    by simp
  have p1: \<open>scenario_loads ''{"name": "imu0", "axes": "x'' = Inl JSONDecodeError\<close>
    by (simp add: scenario_loads_def)
  have p3: \<open>scenario_loads ''{"name": "imu0", "rate": 200}'' = Inr (JObject ?kvs)
      \<and> map_of ?kvs ''name'' = Some (JString ''imu0'') \<and> ''imu0'' \<in> set (map fst (devices scenario))\<close>
    by (simp add: scenario_loads_def scenario_def)
  have s: \<open>handle_set scenario_loads scenario_dumps [''SET'', ''{"name": "imu0", "axes": "x''] scenario
      = (Inl JSONDecodeError, scenario)\<close>
    by (simp add: handle_set_def getitem_def scenario_loads_def)
  have g: \<open>handle_get scenario_dumps [''GET'', ''imu0''] scenario
      = (Inr (), scenario\<lparr>events := [SendLine ''29|{"name": "imu0", "rate": 100}'']\<rparr>)\<close>
    by (simp add: handle_get_def getitem_def send_device_state_eq frame_old_state scenario_def scenario_dumps_def)
  have t: \<open>split_on CHR ''|'' ''y"}'' = [''y"}'']\<close> by simp
  have dm: \<open>scenario_dumps (JObject ?kvs) = ''{"name": "imu0", "rate": 200}''\<close>
    by (simp add: scenario_dumps_def)
  have l: "logged scenario = []" by (simp add: scenario_def)
  note w1 = tokens_after_second_pipe_ignored [OF n1, of \<open>''y"}''\<close> Some
          \<open>''SET|{"name": "imu0", "axes": "x|y"}''\<close> scenario_loads scenario_dumps scenario]
  note w3 = tokens_after_second_pipe_ignored [OF n3, of \<open>''{"rate": 300}''\<close> Some
          \<open>''SET|{"name": "imu0", "rate": 200}|{"rate": 300}''\<close> scenario_loads scenario_dumps scenario]
  note w2 = tokens_after_second_pipe_ignored [OF n2, of "''more''" Some
          "''GET|imu0|more''" scenario_loads scenario_dumps scenario]
  have r0: \<open>split_on CHR ''|'' ''SET|{"name": "imu0", "axes": "x|y"}'' = [''SET'', ''{"name": "imu0", "axes": "x'', ''y"}'']\<close>
    using w1 [THEN conjunct1] by (simp add: t)
  note set1 = w1 [THEN conjunct2, THEN conjunct1, rule_format, OF d1]
  note set3 = w3 [THEN conjunct2, THEN conjunct1, rule_format, OF d3]
  note get2 = w2 [THEN conjunct2, THEN conjunct2, rule_format, OF d2]
  have r1: \<open>lineReceived Some scenario_loads scenario_dumps ''SET|{"name": "imu0", "axes": "x|y"}'' scenario
       = (Inr (), scenario\<lparr>logged := [FailedToHandle ''SET|{"name": "imu0", "axes": "x|y"}'' JSONDecodeError]\<rparr>)\<close>
    using set1 [THEN conjunct2, THEN conjunct2, THEN conjunct2, THEN conjunct1, rule_format, OF p1]
    by (simp add: l)
  have r3: \<open>lineReceived Some scenario_loads scenario_dumps ''SET|{"name": "imu0", "rate": 200}|{"rate": 300}'' scenario
       = (Inr (),
          \<lparr>devices = [(''imu0'', \<lparr>state = JObject [(''name'', JString ''imu0''), (''rate'', JInt 200)],
                                    self_test_results = JNull\<rparr>)],
           handlers = [0],
           events = [SendLine ''29|{"name": "imu0", "rate": 200}''],
           logged = []\<rparr>)\<close>
    using set3 [THEN conjunct2, THEN conjunct2, THEN conjunct2, THEN conjunct2, THEN conjunct1, rule_format, OF p3]
    by (simp add: dm frame_new_state) (simp add: scenario_def set_state_def)
  have r4: \<open>devices (snd (lineReceived Some scenario_loads scenario_dumps ''SET|{"name": "imu0", "axes": "x|y"}'' scenario))
       = devices scenario\<close>
    and r5: \<open>events (snd (lineReceived Some scenario_loads scenario_dumps ''SET|{"name": "imu0", "axes": "x|y"}'' scenario))
       = events scenario\<close>
    using set1 [THEN conjunct2, THEN conjunct1] set1 [THEN conjunct2, THEN conjunct2, THEN conjunct1]
    by (simp_all add: s)
  have r6: \<open>events (snd (lineReceived Some scenario_loads scenario_dumps ''GET|imu0|more'' scenario))
       = [SendLine ''29|{"name": "imu0", "rate": 100}'']\<close>
    using get2 by (simp add: g)
  show ?thesis
    by (intro conjI) (rule r0 r1 r3 r4 r5 r6)+
qed


end
